theory Spec2Isabelle
  imports Main
begin

section \<open>Python values\<close>

text \<open>
  A Python \<open>str\<close> is a sequence of Unicode code points; it is modelled as a list of
  code points, so that \<open>len\<close>, indexing and slicing count what Python counts.
  \<open>pystr\<close> turns an ASCII literal into such a list. Bytes are lists of numbers too.
\<close>

type_synonym pystr = "nat list"

definition pystr :: "string \<Rightarrow> pystr" where
  "pystr s = map of_char s"

text \<open>An ASCII literal between double quotes (code point 34), as a text contains it.\<close>

definition quoted :: "string \<Rightarrow> pystr" where
  "quoted s = [34] @ pystr s @ [34]"

text \<open>
  The values that \<open>json.loads\<close> produces, which are also the values a configuration or a
  completion result holds. A dict is an association list in insertion order with distinct
  keys. A float is kept as the decimal literal that denotes it: the program never
  computes with one.
\<close>

datatype pyval =
    PyNone
  | PyBool bool
  | PyInt int
  | PyFloat pystr
  | PyStr pystr
  | PyList "pyval list"
  | PyDict "(pystr \<times> pyval) list"

text \<open>
  Exceptions, each with the text that \<open>str(exc)\<close> gives. \<open>Raised\<close> is an exception
  that a library or a service raises (a subclass of \<open>Exception\<close>).
\<close>

datatype error =
    AttributeError pystr
  | TypeError pystr
  | IndexError pystr
  | Raised pystr

fun exc_text :: "error \<Rightarrow> pystr" where
  "exc_text (AttributeError m) = m"
| "exc_text (TypeError m) = m"
| "exc_text (IndexError m) = m"
| "exc_text (Raised m) = m"

text \<open>\<open>type(v).__name__\<close>.\<close>

fun type_name :: "pyval \<Rightarrow> pystr" where
  "type_name PyNone = pystr ''NoneType''"
| "type_name (PyBool _) = pystr ''bool''"
| "type_name (PyInt _) = pystr ''int''"
| "type_name (PyFloat _) = pystr ''float''"
| "type_name (PyStr _) = pystr ''str''"
| "type_name (PyList _) = pystr ''list''"
| "type_name (PyDict _) = pystr ''dict''"

text \<open>\<open>d.get(k)\<close> on an association list: the first binding of the key.\<close>

definition dict_get :: "(pystr \<times> pyval) list \<Rightarrow> pystr \<Rightarrow> pyval option" where
  "dict_get d k = map_of d k"

section \<open>String operations of the Python runtime\<close>

text \<open>
  \<open>str.isspace\<close> on one code point, which is what \<open>str.strip()\<close> removes: the ASCII
  whitespace and separators 9..13, 28..32, then U+0085, U+00A0, U+1680, U+2000..U+200A,
  U+2028, U+2029, U+202F, U+205F and U+3000.
\<close>

definition py_isspace :: "nat \<Rightarrow> bool" where
  "py_isspace c \<longleftrightarrow>
     (9 \<le> c \<and> c \<le> 13) \<or> (28 \<le> c \<and> c \<le> 32) \<or> c = 133 \<or> c = 160 \<or> c = 5760 \<or>
     (8192 \<le> c \<and> c \<le> 8202) \<or> c = 8232 \<or> c = 8233 \<or> c = 8239 \<or> c = 8287 \<or> c = 12288"

definition strip :: "pystr \<Rightarrow> pystr" where
  "strip s = rev (dropWhile py_isspace (rev (dropWhile py_isspace s)))"

text \<open>\<open>s.find(c)\<close> for a single character: the least index, or \<open>-1\<close>.\<close>

fun find_char :: "nat \<Rightarrow> pystr \<Rightarrow> int" where
  "find_char c [] = - 1"
| "find_char c (x # xs) =
     (if x = c then 0 else (let r = find_char c xs in if r = - 1 then - 1 else r + 1))"

text \<open>\<open>s.rfind(c)\<close> for a single character: the greatest index, or \<open>-1\<close>.\<close>

definition rfind_char :: "nat \<Rightarrow> pystr \<Rightarrow> int" where
  "rfind_char c s =
     (let r = find_char c (rev s) in if r = - 1 then - 1 else int (length s) - 1 - r)"

text \<open>The slice \<open>s[a:b]\<close>, with Python's treatment of negative and too large bounds.\<close>

definition slice_bound :: "nat \<Rightarrow> int \<Rightarrow> nat" where
  "slice_bound n i = (if i < 0 then nat (max 0 (int n + i)) else min (nat i) n)"

definition slice :: "pystr \<Rightarrow> int \<Rightarrow> int \<Rightarrow> pystr" where
  "slice s a b =
     (let lo = slice_bound (length s) a; hi = slice_bound (length s) b
      in take (hi - lo) (drop lo s))"

text \<open>\<open>sep.join(xs)\<close>.\<close>

fun join :: "pystr \<Rightarrow> pystr list \<Rightarrow> pystr" where
  "join sep [] = []"
| "join sep [x] = x"
| "join sep (x # y # ys) = x @ sep @ join sep (y # ys)"

definition hash :: nat where "hash = 35"
definition space :: nat where "space = 32"
definition lbrace :: nat where "lbrace = 123"
definition rbrace :: nat where "rbrace = 125"

text \<open>\<open>s.startswith("#")\<close>, \<open>s.lstrip("#")\<close> and \<open>s.replace(" ", "")\<close>.\<close>

definition startswith_hash :: "pystr \<Rightarrow> bool" where
  "startswith_hash s = (case s of [] \<Rightarrow> False | c # _ \<Rightarrow> c = hash)"

definition lstrip_hash :: "pystr \<Rightarrow> pystr" where
  "lstrip_hash s = dropWhile (\<lambda>c. c = hash) s"

definition remove_spaces :: "pystr \<Rightarrow> pystr" where
  "remove_spaces s = filter (\<lambda>c. c \<noteq> space) s"

text \<open>
  \<open>str(v)\<close>: a string is itself. On every other value the result is the text Python's
  builtin gives it (\<open>repr\<close> of a float, of a list, of a dict), which is the parameter
  \<open>other\<close>.
\<close>

definition py_str :: "(pyval \<Rightarrow> pystr) \<Rightarrow> pyval \<Rightarrow> pystr" where
  "py_str other v = (case v of PyStr s \<Rightarrow> s | _ \<Rightarrow> other v)"

section \<open>The JSON decoder\<close>

text \<open>
  \<open>json.loads\<close> of the standard library with its default arguments, as a function from
  the text to the decoded value, \<open>None\<close> where it raises. It accepts what CPython's
  decoder accepts: the JSON grammar with the whitespace characters space, tab, line feed
  and carriage return, no control character inside a string, the escapes of the
  grammar with surrogate pairs joined, and also the literals \<open>NaN\<close>, \<open>Infinity\<close> and
  \<open>-Infinity\<close>. A key that occurs again in an object replaces the value and keeps the place
  of the first occurrence. The interpreter's limits on nesting depth and on the number of
  digits of an integer are not modelled.
\<close>

text \<open>\<open>d[k] = v\<close> on an association list.\<close>

definition dict_set ::
  "pystr \<Rightarrow> pyval \<Rightarrow> (pystr \<times> pyval) list \<Rightarrow> (pystr \<times> pyval) list" where
  "dict_set k v d =
     (if k \<in> fst ` set d then map (\<lambda>(k', v'). if k' = k then (k', v) else (k', v')) d
      else d @ [(k, v)])"

text \<open>
  The tokens: the six punctuation marks, a string, and any other scalar (a number or
  one of the literals) with its value.
\<close>

datatype token =
    TLBrace | TRBrace | TLBracket | TRBracket | TComma | TColon
  | TString pystr
  | TScalar pyval

text \<open>The digits \<open>0\<close> to \<open>9\<close> are the code points 48 to 57.\<close>

definition is_digit :: "nat \<Rightarrow> bool" where
  "is_digit c \<longleftrightarrow> 48 \<le> c \<and> c \<le> 57"

text \<open>A hexadecimal digit: \<open>0\<close> to \<open>9\<close>, \<open>a\<close> to \<open>f\<close> (97 to 102), \<open>A\<close> to \<open>F\<close> (65 to 70).\<close>

definition hex_value :: "nat \<Rightarrow> nat option" where
  "hex_value c =
     (if 48 \<le> c \<and> c \<le> 57 then Some (c - 48)
      else if 97 \<le> c \<and> c \<le> 102 then Some (c - 87)
      else if 65 \<le> c \<and> c \<le> 70 then Some (c - 55)
      else None)"

fun hex4 :: "pystr \<Rightarrow> nat option" where
  "hex4 [a, b, c, d] =
     (case (hex_value a, hex_value b, hex_value c, hex_value d) of
        (Some x, Some y, Some z, Some w) \<Rightarrow> Some (((x * 16 + y) * 16 + z) * 16 + w)
      | _ \<Rightarrow> None)"
| "hex4 _ = None"

text \<open>
  The character after a backslash, for the escapes of one character: the double quote,
  the backslash and the slash stand for themselves, \<open>b f n r t\<close> for the control
  characters 8, 12, 10, 13 and 9.
\<close>

definition simple_escape :: "nat \<Rightarrow> nat option" where
  "simple_escape e =
     (if e = 34 then Some 34 else if e = 92 then Some 92 else if e = 47 then Some 47
      else if e = 98 then Some 8 else if e = 102 then Some 12 else if e = 110 then Some 10
      else if e = 114 then Some 13 else if e = 116 then Some 9 else None)"

text \<open>
  The escape of four hexadecimal digits, the text after the \<open>u\<close> given: the code point
  and the number of characters read. A high surrogate that is followed by the escape of a
  low surrogate is joined with it.
\<close>

definition unicode_escape :: "pystr \<Rightarrow> (nat \<times> nat) option" where
  "unicode_escape cs =
     (case hex4 (take 4 cs) of
        None \<Rightarrow> None
      | Some hi \<Rightarrow>
          if 55296 \<le> hi \<and> hi \<le> 56319 \<and> take 2 (drop 4 cs) = [92, 117] then
            (case hex4 (take 4 (drop 6 cs)) of
               Some lo \<Rightarrow>
                 if 56320 \<le> lo \<and> lo \<le> 57343
                 then Some (65536 + (hi - 55296) * 1024 + (lo - 56320), 10)
                 else Some (hi, 4)
             | None \<Rightarrow> Some (hi, 4))
          else Some (hi, 4))"

text \<open>
  A string, the text after its opening quote given: the content and the text after the
  closing quote (34). A backslash (92) starts an escape; a control character is refused.
\<close>

fun scan_string :: "pystr \<Rightarrow> pystr \<Rightarrow> (pystr \<times> pystr) option" where
  "scan_string [] acc = None"
| "scan_string (c # cs) acc =
     (if c = 34 then Some (rev acc, cs)
      else if c = 92 then
        (case cs of
           [] \<Rightarrow> None
         | e # es \<Rightarrow>
             if e = 117 then
               (case unicode_escape es of
                  None \<Rightarrow> None
                | Some (u, n) \<Rightarrow> scan_string (drop n es) (u # acc))
             else
               (case simple_escape e of
                  None \<Rightarrow> None
                | Some x \<Rightarrow> scan_string es (x # acc)))
      else if c < 32 then None
      else scan_string cs (c # acc))"

lemma scan_string_length:
  "scan_string cs acc = Some (s, rest) \<Longrightarrow> length rest < length cs"
proof (induction cs acc rule: scan_string.induct)
  case (1 acc)
  then show ?case by simp
next
  case (2 c cs acc)
  show ?case
  proof (cases "c = 34")
    case True
    with "2.prems" show ?thesis by simp
  next
    case quote: False
    show ?thesis
    proof (cases "c = 92")
      case True
      with quote "2.prems" obtain e es where cs: "cs = e # es"
        by (cases cs) auto
      show ?thesis
      proof (cases "e = 117")
        case u: True
        with quote True cs "2.prems" obtain x n
          where esc: "unicode_escape es = Some (x, n)"
            and run: "scan_string (drop n es) (x # acc) = Some (s, rest)"
          by (auto split: option.splits)
        from "2.IH"(1) [OF quote True cs u esc refl run]
        have "length rest < length (drop n es)" .
        then show ?thesis using cs by simp
      next
        case other: False
        with quote True cs "2.prems" obtain x
          where esc: "simple_escape e = Some x"
            and run: "scan_string es (x # acc) = Some (s, rest)"
          by (auto split: option.splits)
        from "2.IH"(2) [OF quote True cs other esc run]
        have "length rest < length es" .
        then show ?thesis using cs by simp
      qed
    next
      case False
      with quote "2.prems" have ctl: "\<not> c < 32" and run: "scan_string cs (c # acc) = Some (s, rest)"
        by (auto split: if_splits)
      from "2.IH"(3) [OF quote False ctl run] show ?thesis by simp
    qed
  qed
qed

text \<open>The value of a sequence of digits.\<close>

definition decimal :: "pystr \<Rightarrow> int" where
  "decimal ds = foldl (\<lambda>a d. 10 * a + (int d - 48)) 0 ds"

text \<open>The fraction \<open>.digits\<close> at the head of the text, or nothing.\<close>

definition scan_frac :: "pystr \<Rightarrow> pystr" where
  "scan_frac cs =
     (case cs of
        dot # d # ds \<Rightarrow> if dot = 46 \<and> is_digit d then dot # d # takeWhile is_digit ds else []
      | _ \<Rightarrow> [])"

text \<open>The exponent \<open>e\<close>, an optional sign and digits at the head of the text, or nothing.\<close>

definition scan_exp :: "pystr \<Rightarrow> pystr" where
  "scan_exp cs =
     (case cs of
        [] \<Rightarrow> []
      | e # es \<Rightarrow>
          if e = 101 \<or> e = 69 then
            (case es of
               [] \<Rightarrow> []
             | x # xs \<Rightarrow>
                 if is_digit x then e # x # takeWhile is_digit xs
                 else if x = 43 \<or> x = 45 then
                   (case xs of
                      [] \<Rightarrow> []
                    | y # ys \<Rightarrow> if is_digit y then e # x # y # takeWhile is_digit ys else [])
                 else [])
          else [])"

text \<open>The integer part: \<open>0\<close>, or a non-zero digit and the digits after it.\<close>

definition scan_int :: "pystr \<Rightarrow> pystr" where
  "scan_int cs =
     (case cs of
        [] \<Rightarrow> []
      | d # ds \<Rightarrow>
          if d = 48 then [d]
          else if is_digit d then d # takeWhile is_digit ds
          else [])"

text \<open>
  A number: an optional minus sign (45), the integer part, and an optional fraction and
  exponent, which make it a float.
\<close>

definition scan_number :: "pystr \<Rightarrow> (pyval \<times> pystr) option" where
  "scan_number cs =
     (let sign = (case cs of [] \<Rightarrow> [] | c # _ \<Rightarrow> if c = 45 then [c] else []);
          r0 = drop (length sign) cs;
          ipart = scan_int r0;
          r1 = drop (length ipart) r0;
          frac = scan_frac r1;
          r2 = drop (length frac) r1;
          ex = scan_exp r2;
          r3 = drop (length ex) r2
      in if ipart = [] then None
         else if frac = [] \<and> ex = [] then
           Some (PyInt (if sign = [] then decimal ipart else - decimal ipart), r3)
         else Some (PyFloat (sign @ ipart @ frac @ ex), r3))"

lemma scan_int_Nil: "scan_int [] = []"
  by (simp add: scan_int_def)

lemma scan_number_length:
  assumes "scan_number cs = Some (v, rest)"
  shows "length rest < length cs"
proof -
  define sign where "sign = (case cs of [] \<Rightarrow> [] | c # _ \<Rightarrow> if c = 45 then [c] else [])"
  define r0 where "r0 = drop (length sign) cs"
  define r1 where "r1 = drop (length (scan_int r0)) r0"
  define r2 where "r2 = drop (length (scan_frac r1)) r1"
  define r3 where "r3 = drop (length (scan_exp r2)) r2"
  have nonempty: "scan_int r0 \<noteq> []"
    using assms unfolding scan_number_def Let_def sign_def r0_def
    by (auto split: if_splits)
  have rest: "rest = r3"
    using assms unfolding scan_number_def Let_def sign_def r0_def r1_def r2_def r3_def
    by (auto split: if_splits)
  from nonempty have "r0 \<noteq> []"
    using scan_int_Nil by auto
  with nonempty have "length r1 < length r0"
    by (simp add: r1_def)
  moreover have "length r3 \<le> length r1"
    by (simp add: r3_def r2_def)
  moreover have "length r0 \<le> length cs"
    by (simp add: r0_def)
  ultimately show ?thesis
    using rest by simp
qed

text \<open>A literal at the head of the text.\<close>

definition literal :: "string \<Rightarrow> pyval \<Rightarrow> pystr \<Rightarrow> (pyval \<times> pystr) option" where
  "literal name v cs =
     (if take (length name) cs = pystr name then Some (v, drop (length name) cs) else None)"

text \<open>A scalar other than a string, chosen by its first character.\<close>

definition scan_scalar :: "pystr \<Rightarrow> (pyval \<times> pystr) option" where
  "scan_scalar cs =
     (case cs of
        [] \<Rightarrow> None
      | c # _ \<Rightarrow>
          if c = 110 then literal ''null'' PyNone cs
          else if c = 116 then literal ''true'' (PyBool True) cs
          else if c = 102 then literal ''false'' (PyBool False) cs
          else if c = 78 then literal ''NaN'' (PyFloat (pystr ''NaN'')) cs
          else if c = 73 then literal ''Infinity'' (PyFloat (pystr ''Infinity'')) cs
          else if c = 45 \<and> take 9 cs = pystr ''-Infinity''
            then literal ''-Infinity'' (PyFloat (pystr ''-Infinity'')) cs
          else scan_number cs)"

lemma literal_length:
  "literal name v' cs = Some (v, rest) \<Longrightarrow> name \<noteq> [] \<Longrightarrow> length rest < length cs"
  by (cases cs; cases name) (auto simp: literal_def pystr_def split: if_splits)

lemma scan_scalar_length:
  assumes "scan_scalar cs = Some (v, rest)"
  shows "length rest < length cs"
proof (cases cs)
  case Nil
  with assms show ?thesis by (simp add: scan_scalar_def)
next
  case (Cons c cs')
  with assms show ?thesis
    unfolding scan_scalar_def
    by (simp split: if_splits) (auto dest: literal_length scan_number_length)
qed

text \<open>
  The tokens of a text. Space, tab, line feed and carriage return (32, 9, 10, 13) separate
  tokens; the punctuation marks are \<open>{ } [ ] , :\<close> (123, 125, 91, 93, 44, 58).
\<close>

function tokens :: "pystr \<Rightarrow> token list option" where
  "tokens [] = Some []"
| "tokens (c # cs) =
     (if c = 32 \<or> c = 9 \<or> c = 10 \<or> c = 13 then tokens cs
      else if c = 123 then map_option ((#) TLBrace) (tokens cs)
      else if c = 125 then map_option ((#) TRBrace) (tokens cs)
      else if c = 91 then map_option ((#) TLBracket) (tokens cs)
      else if c = 93 then map_option ((#) TRBracket) (tokens cs)
      else if c = 44 then map_option ((#) TComma) (tokens cs)
      else if c = 58 then map_option ((#) TColon) (tokens cs)
      else if c = 34 then
        (case scan_string cs [] of
           None \<Rightarrow> None
         | Some (s, rest) \<Rightarrow> map_option ((#) (TString s)) (tokens rest))
      else
        (case scan_scalar (c # cs) of
           None \<Rightarrow> None
         | Some (v, rest) \<Rightarrow> map_option ((#) (TScalar v)) (tokens rest)))"
  by pat_completeness auto
termination
  by (relation "measure length")
     (auto dest: scan_string_length scan_scalar_length)

text \<open>
  The parser is a pushdown automaton over the tokens. A frame is a container that is
  still open: a list with the elements read so far, or a dict with the bindings read
  so far and the key whose value is being read.
\<close>

datatype frame = InList "pyval list" | InDict "(pystr \<times> pyval) list" pystr

text \<open>
  What the parser expects next: a value; a value or \<open>]\<close> just after \<open>[\<close>; a key or \<open>}\<close>
  just after \<open>{\<close>; a key after a comma in a dict; the colon after a key; or, with a value
  complete, a comma, the end of the open container, or the end of the text.
\<close>

datatype expect =
    Value
  | FirstItem
  | FirstKey
  | Key "(pystr \<times> pyval) list"
  | Colon "(pystr \<times> pyval) list" pystr
  | Done pyval

definition start_value :: "frame list \<Rightarrow> token \<Rightarrow> (frame list \<times> expect) option" where
  "start_value st t =
     (case t of
        TScalar v \<Rightarrow> Some (st, Done v)
      | TString s \<Rightarrow> Some (st, Done (PyStr s))
      | TLBracket \<Rightarrow> Some (st, FirstItem)
      | TLBrace \<Rightarrow> Some (st, FirstKey)
      | _ \<Rightarrow> None)"

definition close_value :: "pyval \<Rightarrow> frame list \<Rightarrow> token \<Rightarrow> (frame list \<times> expect) option" where
  "close_value v st t =
     (case st of
        [] \<Rightarrow> None
      | InList acc # st' \<Rightarrow>
          (case t of
             TComma \<Rightarrow> Some (InList (acc @ [v]) # st', Value)
           | TRBracket \<Rightarrow> Some (st', Done (PyList (acc @ [v])))
           | _ \<Rightarrow> None)
      | InDict d k # st' \<Rightarrow>
          (case t of
             TComma \<Rightarrow> Some (st', Key (dict_set k v d))
           | TRBrace \<Rightarrow> Some (st', Done (PyDict (dict_set k v d)))
           | _ \<Rightarrow> None))"

definition step :: "frame list \<times> expect \<Rightarrow> token \<Rightarrow> (frame list \<times> expect) option" where
  "step cfg t =
     (case cfg of (st, e) \<Rightarrow>
        (case e of
           Value \<Rightarrow> start_value st t
         | FirstItem \<Rightarrow>
             (case t of TRBracket \<Rightarrow> Some (st, Done (PyList []))
                      | _ \<Rightarrow> start_value (InList [] # st) t)
         | FirstKey \<Rightarrow>
             (case t of TRBrace \<Rightarrow> Some (st, Done (PyDict []))
                      | TString k \<Rightarrow> Some (st, Colon [] k)
                      | _ \<Rightarrow> None)
         | Key d \<Rightarrow> (case t of TString k \<Rightarrow> Some (st, Colon d k) | _ \<Rightarrow> None)
         | Colon d k \<Rightarrow> (case t of TColon \<Rightarrow> Some (InDict d k # st, Value) | _ \<Rightarrow> None)
         | Done v \<Rightarrow> close_value v st t))"

text \<open>The automaton on all tokens: the text is a document when one value is complete at its end.\<close>

fun run :: "frame list \<times> expect \<Rightarrow> token list \<Rightarrow> pyval option" where
  "run cfg [] = (case cfg of ([], Done v) \<Rightarrow> Some v | _ \<Rightarrow> None)"
| "run cfg (t # ts) = (case step cfg t of None \<Rightarrow> None | Some cfg' \<Rightarrow> run cfg' ts)"

definition json_loads :: "pystr \<Rightarrow> pyval option" where
  "json_loads s = (case tokens s of None \<Rightarrow> None | Some ts \<Rightarrow> run ([], Value) ts)"

section \<open>The hashtag extractor\<close>

text \<open>
  The body of the loop of \<open>_parse_hashtags\<close> (lines 47 to 52) on one element of the tag
  list: \<open>None\<close> when the element is skipped, the text appended to \<open>cleaned\<close> otherwise.
\<close>

definition clean_tag :: "(pyval \<Rightarrow> pystr) \<Rightarrow> pyval \<Rightarrow> pystr option" where
  "clean_tag other tag =
     (let tag_text = strip (py_str other tag) in
      if tag_text = [] then None
      else let tag_text = (if \<not> startswith_hash tag_text then hash # lstrip_hash tag_text
                           else tag_text)
           in Some (remove_spaces tag_text))"

text \<open>The loop: \<open>cleaned\<close> after all elements, in order.\<close>

fun clean_tags :: "(pyval \<Rightarrow> pystr) \<Rightarrow> pyval list \<Rightarrow> pystr list" where
  "clean_tags other [] = []"
| "clean_tags other (tag # tags) =
     (case clean_tag other tag of
        None \<Rightarrow> clean_tags other tags
      | Some t \<Rightarrow> t # clean_tags other tags)"

text \<open>
  Lines 42 to 53, on the decoded payload. \<open>payload.get\<close> exists on a dict only: on any
  other value the attribute lookup raises \<open>AttributeError\<close>, which nothing catches.
\<close>

definition hashtags_of_payload :: "(pyval \<Rightarrow> pystr) \<Rightarrow> pyval \<Rightarrow> error + pystr" where
  "hashtags_of_payload other payload =
     (case payload of
        PyDict d \<Rightarrow>
          (let tags = (case dict_get d (pystr ''hashtags'') of None \<Rightarrow> PyList [] | Some v \<Rightarrow> v)
           in case tags of
                PyList ts \<Rightarrow> Inr (join [space] (take 10 (clean_tags other ts)))
              | _ \<Rightarrow> Inr [])
      | _ \<Rightarrow>
          Inl (AttributeError
                 ([39] @ type_name payload @ [39] @ pystr '' object has no attribute '' @
                  [39] @ pystr ''get'' @ [39])))"

text \<open>
  \<open>_parse_hashtags\<close>. The argument is a string or \<open>None\<close> (\<open>raw_text or ""\<close>).
  \<open>loads\<close> is \<open>json.loads\<close>: \<open>None\<close> when it raises, the decoded value otherwise.
\<close>

definition parse_hashtags ::
  "(pystr \<Rightarrow> pyval option) \<Rightarrow> (pyval \<Rightarrow> pystr) \<Rightarrow> pystr option \<Rightarrow> error + pystr" where
  "parse_hashtags loads other raw_text =
     (let text = strip (case raw_text of None \<Rightarrow> [] | Some s \<Rightarrow> s) in
      if text = [] then Inr []
      else
        case loads text of
          Some payload \<Rightarrow> hashtags_of_payload other payload
        | None \<Rightarrow>
            (let start = find_char lbrace text; end = rfind_char rbrace text in
             if start = - 1 \<or> end = - 1 \<or> end \<le> start then Inr text
             else
               case loads (slice text start (end + 1)) of
                 None \<Rightarrow> Inr text
               | Some payload \<Rightarrow> hashtags_of_payload other payload))"

section \<open>The hashtag generator\<close>

text \<open>A line of a prompt: the text and a line feed.\<close>

definition line :: "string \<Rightarrow> pystr" where
  "line s = pystr s @ [10]"

text \<open>\<open>_build_hashtag_prompt\<close>.\<close>

definition build_hashtag_prompt :: "pystr \<Rightarrow> pystr \<Rightarrow> pystr \<Rightarrow> pystr" where
  "build_hashtag_prompt post topic business_objective =
     line ''Create 8 LinkedIn hashtags for this post.'' @
     line ''Rules:'' @
     line ''- Return JSON only.'' @
     pystr ''- Schema: {'' @ quoted ''hashtags'' @ pystr '': ['' @ quoted ''#tag1'' @ pystr '', '' @
       quoted ''#tag2'' @ line '']}'' @
     line ''- Hashtags must be relevant to SMEs, AI implementation, and business outcomes.'' @
     line ''- No generic spam tags like #success or #motivation.'' @ [10] @
     pystr ''Topic: '' @ topic @ [10] @
     pystr ''Business objective: '' @ business_objective @ [10] @ [10] @
     line ''Post:'' @ post @ [10]"

text \<open>
  The configuration of a call, with the options that the code reads. \<open>cfg_api_key\<close> is
  \<open>config.get("api_key")\<close>, a string, or \<open>None\<close> when the key is absent or holds \<open>None\<close>;
  for the other options \<open>None\<close> is the absent key, and the value is any Python value.
\<close>

record config =
  cfg_api_key :: "pystr option"
  cfg_image_model :: "pyval option"
  cfg_image_size :: "pyval option"
  cfg_timeout :: "pyval option"

text \<open>
  Modelled from the spec: the dict that \<open>generate_completion\<close> returns (CompletionResult),
  whose code is in \<open>generation/llm_client.py\<close>. The keys are those that
  \<open>generate_hashtags\<close> reads; for each key \<open>None\<close> is the absent key. The content is the
  raw text or \<open>None\<close>; the other values are any Python values.
\<close>

record llm_result =
  lr_content :: "pystr option option"
  lr_model :: "pyval option"
  lr_attempts :: "pyval option"
  lr_usage :: "pyval option"
  lr_length :: "pyval option"
  lr_estimated_cost_usd :: "pyval option"
  lr_error :: "pyval option"

text \<open>\<open>d.get(key, default)\<close> on one key of such a dict.\<close>

definition get_default :: "'a option \<Rightarrow> 'a \<Rightarrow> 'a" where
  "get_default entry dflt = (case entry of None \<Rightarrow> dflt | Some v \<Rightarrow> v)"

text \<open>A message: the role and the content.\<close>

type_synonym message = "pystr \<times> pystr"

text \<open>The messages of lines 57 to 66.\<close>

definition hashtag_messages :: "pystr \<Rightarrow> pystr \<Rightarrow> pystr \<Rightarrow> message list" where
  "hashtag_messages post topic business_objective =
     [(pystr ''system'',
       pystr ''You create specific, SME-relevant LinkedIn hashtags. Return JSON only.''),
      (pystr ''user'', build_hashtag_prompt post topic business_objective)]"

text \<open>The metadata of lines 69 to 78.\<close>

definition llm_metadata :: "llm_result \<Rightarrow> (pystr \<times> pyval) list" where
  "llm_metadata llm_result =
     [(pystr ''llm'',
       PyDict
         [(pystr ''model'', get_default (lr_model llm_result) PyNone),
          (pystr ''attempts'', get_default (lr_attempts llm_result) PyNone),
          (pystr ''usage'', get_default (lr_usage llm_result) (PyDict [])),
          (pystr ''length'', get_default (lr_length llm_result) (PyDict [])),
          (pystr ''estimated_cost_usd'',
           get_default (lr_estimated_cost_usd llm_result) (PyFloat (pystr ''0.0''))),
          (pystr ''error'', get_default (lr_error llm_result) PyNone)])]"

text \<open>
  \<open>generate_hashtags\<close>. The completion client \<open>generate_completion\<close> is outside this
  module: it is a parameter, which returns the result dict or raises. Its exception is
  not caught, and neither is one of \<open>_parse_hashtags\<close>.
\<close>

definition generate_hashtags ::
  "(message list \<Rightarrow> config \<Rightarrow> error + llm_result) \<Rightarrow> (pystr \<Rightarrow> pyval option) \<Rightarrow>
   (pyval \<Rightarrow> pystr) \<Rightarrow> pystr \<Rightarrow> pystr \<Rightarrow> pystr \<Rightarrow> config \<Rightarrow>
   error + (pystr \<times> (pystr \<times> pyval) list)" where
  "generate_hashtags generate_completion loads other post topic business_objective config =
     (case generate_completion (hashtag_messages post topic business_objective) config of
        Inl e \<Rightarrow> Inl e
      | Inr llm_result \<Rightarrow>
          (case parse_hashtags loads other (get_default (lr_content llm_result) (Some [])) of
             Inl e \<Rightarrow> Inl e
           | Inr hashtags \<Rightarrow> Inr (hashtags, llm_metadata llm_result)))"

section \<open>The image generator\<close>

text \<open>A request to the image service: the arguments of \<open>client.images.generate\<close>.\<close>

record image_request =
  req_model :: pyval
  req_prompt :: pystr
  req_size :: pyval

text \<open>
  What is outside the program during one call: the environment variable, the builtin
  \<open>float\<close> on a bool, a number or a string, the constructor of the client (the exception
  if it raises), the image service (for a request, the \<open>b64_json\<close> of each item of
  \<open>response.data\<close>, \<open>None\<close> where an item has none, or the exception),
  \<open>base64.b64decode\<close>, the directory for temporary
  files and the random names that \<open>tempfile\<close> draws, and the failures of the file system
  on creating a file and on writing and closing it (the exception, and how many of the
  bytes have reached the file).
\<close>

record env =
  getenv :: "pystr option"
  builtin_float :: "pyval \<Rightarrow> error + pyval"
  openai_client :: "pystr \<Rightarrow> pyval \<Rightarrow> error option"
  images_generate :: "image_request \<Rightarrow> error + pystr option list"
  b64decode :: "pystr \<Rightarrow> error + nat list"
  tempdir :: pystr
  candidates :: "pystr list"
  create_error :: "pystr \<Rightarrow> error option"
  write_error :: "pystr \<Rightarrow> nat list \<Rightarrow> (error \<times> nat) option"

text \<open>
  What the call can change: the files (path to bytes) and the requests that have been
  sent to the image service.
\<close>

record world =
  files :: "pystr \<rightharpoonup> nat list"
  image_calls :: "image_request list"

text \<open>
  \<open>float(v)\<close>: a \<open>TypeError\<close> on \<open>None\<close>, a list or a dict (with the text of
  Python 3.10 and later), and the builtin's answer on the other values.
\<close>

definition py_float :: "(pyval \<Rightarrow> error + pyval) \<Rightarrow> pyval \<Rightarrow> error + pyval" where
  "py_float conv v =
     (let refuse = Inl (TypeError
            (pystr ''float() argument must be a string or a real number, not '' @
             [39] @ type_name v @ [39]))
      in case v of
           PyNone \<Rightarrow> refuse
         | PyList _ \<Rightarrow> refuse
         | PyDict _ \<Rightarrow> refuse
         | _ \<Rightarrow> conv v)"

text \<open>The prompt of lines 91 to 106.\<close>

definition image_prompt :: "pystr \<Rightarrow> pystr \<Rightarrow> pystr" where
  "image_prompt topic post =
     line ''Create a premium, professional LinkedIn cover-style image for a business audience.'' @
     line ''Art direction:'' @
     line ''- Executive editorial style, modern and minimal.'' @
     line ''- Clean composition with a clear focal point and strong visual hierarchy.'' @
     line ''- Sophisticated corporate palette (deep blue, slate, white, subtle accent), high contrast.'' @
     line ''- Subtle data/operations motifs (workflow lines, dashboards, process blocks) without clutter.'' @
     line ''- Plenty of negative space suitable for social media crops.'' @
     line ''- No logos, no brand marks, no watermarks, no UI screenshots.'' @
     line ''- Avoid busy backgrounds, cartoon style, and stock-photo look.'' @
     line ''- Do not render readable text inside the image.'' @
     line ''Output quality:'' @
     line ''- Crisp, polished, presentation-ready, suitable for LinkedIn post visuals.'' @
     pystr ''Topic: '' @ topic @ [10] @
     pystr ''Post context: '' @ post @ [10]"

text \<open>
  \<open>tempfile.NamedTemporaryFile(prefix="pbcg_", suffix=".png", delete=False)\<close> picks the
  first drawn name whose path does not exist, and creates the file there.
\<close>

definition temp_path :: "pystr \<Rightarrow> pystr \<Rightarrow> pystr" where
  "temp_path dir name = dir @ [47] @ pystr ''pbcg_'' @ name @ pystr ''.png''"

fun mkstemp :: "(pystr \<rightharpoonup> nat list) \<Rightarrow> pystr \<Rightarrow> pystr list \<Rightarrow> error + pystr" where
  "mkstemp fs dir [] = Inl (Raised (pystr ''[Errno 17] No usable temporary file name found''))"
| "mkstemp fs dir (name # names) =
     (if fs (temp_path dir name) \<noteq> None then mkstemp fs dir names
      else Inr (temp_path dir name))"

text \<open>
  Lines 120 to 122: the file is created, the bytes are written, and the file is closed
  and kept at the end of the \<open>with\<close> block.
\<close>

definition write_temp_file :: "env \<Rightarrow> nat list \<Rightarrow> world \<Rightarrow> (error + pystr) \<times> world" where
  "write_temp_file env image_bytes w =
     (case mkstemp (files w) (tempdir env) (candidates env) of
        Inl e \<Rightarrow> (Inl e, w)
      | Inr image_path \<Rightarrow>
          (case create_error env image_path of
             Some e \<Rightarrow> (Inl e, w)
           | None \<Rightarrow>
               (case write_error env image_path image_bytes of
                  Some (e, n) \<Rightarrow>
                    (Inl e, w\<lparr>files := (files w)(image_path \<mapsto> take n image_bytes)\<rparr>)
                | None \<Rightarrow> (Inr image_path, w\<lparr>files := (files w)(image_path \<mapsto> image_bytes)\<rparr>))))"

text \<open>The body of the \<open>try\<close> block, lines 109 to 124.\<close>

definition image_attempt ::
  "env \<Rightarrow> pyval \<Rightarrow> pyval \<Rightarrow> pystr \<Rightarrow> world \<Rightarrow>
   (error + (pystr option \<times> (pystr \<times> pyval) list)) \<times> world" where
  "image_attempt env image_model image_size prompt w =
     (let request = \<lparr>req_model = image_model, req_prompt = prompt, req_size = image_size\<rparr>;
          w1 = w\<lparr>image_calls := image_calls w @ [request]\<rparr>;
          missing = (Inr (None, [(pystr ''error'', PyStr (pystr ''Image response missing b64_json'')),
                                 (pystr ''model'', image_model)]), w1)
      in case images_generate env request of
           Inl e \<Rightarrow> (Inl e, w1)
         | Inr data \<Rightarrow>
             (case data of
                [] \<Rightarrow> (Inl (IndexError (pystr ''list index out of range'')), w1)
              | b64_json # _ \<Rightarrow>
                  (case b64_json of
                     None \<Rightarrow> missing
                   | Some b64_data \<Rightarrow>
                       if b64_data = [] then missing
                       else
                         (case b64decode env b64_data of
                            Inl e \<Rightarrow> (Inl e, w1)
                          | Inr image_bytes \<Rightarrow>
                              (case write_temp_file env image_bytes w1 of
                                 (Inl e, w2) \<Rightarrow> (Inl e, w2)
                               | (Inr image_path, w2) \<Rightarrow>
                                   (Inr (Some image_path,
                                         [(pystr ''model'', image_model),
                                          (pystr ''size'', image_size),
                                          (pystr ''path'', PyStr image_path)]), w2))))))"

text \<open>
  \<open>generate_post_image\<close>. The result is what the call returns, or the exception that
  leaves it, and the world after the call.
\<close>

definition generate_post_image ::
  "env \<Rightarrow> pystr \<Rightarrow> pystr \<Rightarrow> config \<Rightarrow> world \<Rightarrow>
   (error + (pystr option \<times> (pystr \<times> pyval) list)) \<times> world" where
  "generate_post_image env post topic config w =
     (let api_key =
            (case cfg_api_key config of
               None \<Rightarrow> getenv env
             | Some k \<Rightarrow> if k \<noteq> [] then Some k else getenv env)
      in case api_key of
           None \<Rightarrow> (Inr (None, [(pystr ''error'', PyStr (pystr ''OPENAI_API_KEY not set''))]), w)
         | Some key \<Rightarrow>
             if key = [] then
               (Inr (None, [(pystr ''error'', PyStr (pystr ''OPENAI_API_KEY not set''))]), w)
             else
               let image_model = get_default (cfg_image_model config) (PyStr (pystr ''gpt-image-1''));
                   image_size = get_default (cfg_image_size config) (PyStr (pystr ''1024x1024''))
               in case py_float (builtin_float env) (get_default (cfg_timeout config) (PyInt 60)) of
                    Inl e \<Rightarrow> (Inl e, w)
                  | Inr timeout \<Rightarrow>
                      (case openai_client env key timeout of
                         Some e \<Rightarrow> (Inl e, w)
                       | None \<Rightarrow>
                           (case image_attempt env image_model image_size (image_prompt topic post) w of
                              (Inl exc, w') \<Rightarrow>
                                (Inr (None, [(pystr ''error'', PyStr (exc_text exc)),
                                             (pystr ''model'', image_model),
                                             (pystr ''size'', image_size)]), w')
                            | (Inr result, w') \<Rightarrow> (Inr result, w'))))"

section \<open>Notions for the properties\<close>

text \<open>
  A hashtag string read back: the non-empty pieces between space characters, which is
  \<open>[t for t in s.split(" ") if t]\<close>.
\<close>

fun split_at :: "nat \<Rightarrow> pystr \<Rightarrow> pystr list" where
  "split_at c [] = [[]]"
| "split_at c (x # xs) =
     (if x = c then [] # split_at c xs
      else (case split_at c xs of [] \<Rightarrow> [[x]] | p # ps \<Rightarrow> (x # p) # ps))"

definition space_tokens :: "pystr \<Rightarrow> pystr list" where
  "space_tokens s = filter (\<lambda>p. p \<noteq> []) (split_at space s)"

text \<open>
  A normalized tag: not empty, trimmed, one \<open>#\<close> in front and no second one after it,
  no whitespace anywhere.
\<close>

definition normalized_tag :: "pystr \<Rightarrow> bool" where
  "normalized_tag t \<longleftrightarrow>
     t \<noteq> [] \<and> strip t = t \<and> startswith_hash t \<and> \<not> startswith_hash (tl t) \<and>
     list_all (\<lambda>c. \<not> py_isspace c) t"

section \<open>Example inputs\<close>

text \<open>
  In the examples every element of the tag list is a string, so \<open>str\<close> of another value
  is never asked for; the examples pass this function for it.
\<close>

definition str_unused :: "pyval \<Rightarrow> pystr" where
  "str_unused v = []"

text \<open>The completion text \<open>Sure! {"hashtags":["AI","#SME"]} Thanks\<close>.\<close>

definition sure_text :: pystr where
  "sure_text = pystr ''Sure! {'' @ quoted ''hashtags'' @ pystr '':['' @ quoted ''AI'' @ pystr '',''
     @ quoted ''#SME'' @ pystr '']} Thanks''"

text \<open>The object inside it, \<open>{"hashtags":["AI","#SME"]}\<close>, and its decoded value.\<close>

definition sure_object :: pystr where
  "sure_object = pystr ''{'' @ quoted ''hashtags'' @ pystr '':['' @ quoted ''AI'' @ pystr '',''
     @ quoted ''#SME'' @ pystr '']}''"

definition sure_payload :: pyval where
  "sure_payload =
     PyDict [(pystr ''hashtags'', PyList [PyStr (pystr ''AI''), PyStr (pystr ''#SME'')])]"

text \<open>The completion text \<open>{"hashtags":["##growth"]}\<close>.\<close>

definition growth_text :: pystr where
  "growth_text = pystr ''{'' @ quoted ''hashtags'' @ pystr '':['' @ quoted ''##growth'' @ pystr '']}''"

text \<open>
  The completion text \<open>{"hashtags":["","a?b"]}\<close>, where \<open>?\<close> stands for the two
  characters of the JSON escape for a tab (code points 92 and 116).
\<close>

definition gap_text :: pystr where
  "gap_text = pystr ''{'' @ quoted ''hashtags'' @ pystr '':['' @ quoted [] @ pystr '',''
     @ [34, 97, 92, 116, 98, 34] @ pystr '']}''"

text \<open>A completion result whose content is \<open>None\<close> and which has no \<open>usage\<close> key.\<close>

definition sample_result :: llm_result where
  "sample_result =
     \<lparr>lr_content = Some None, lr_model = Some (PyStr (pystr ''gpt-4o-mini'')),
      lr_attempts = Some (PyInt 1), lr_usage = None, lr_length = Some (PyDict []),
      lr_estimated_cost_usd = Some (PyFloat (pystr ''0.0'')),
      lr_error = Some (PyStr (pystr ''empty completion''))\<rparr>"

definition sample_completion :: "message list \<Rightarrow> config \<Rightarrow> error + llm_result" where
  "sample_completion messages config = Inr sample_result"

text \<open>A configuration with a key and one without, both with the defaults otherwise.\<close>

definition key_config :: config where
  "key_config =
     \<lparr>cfg_api_key = Some (pystr ''sk-test''), cfg_image_model = None, cfg_image_size = None,
      cfg_timeout = None\<rparr>"

definition no_key_config :: config where
  "no_key_config =
     \<lparr>cfg_api_key = None, cfg_image_model = None, cfg_image_size = None, cfg_timeout = None\<rparr>"

text \<open>
  An environment in which everything succeeds: the service answers with the payload
  \<open>aGk=\<close>, which decodes to the two bytes of \<open>hi\<close>; and one in which the service raises
  an exception with an empty text.
\<close>

definition sample_env :: env where
  "sample_env =
     \<lparr>getenv = None,
      builtin_float = (\<lambda>v. Inr (PyFloat (pystr ''60.0''))),
      openai_client = (\<lambda>key timeout. None),
      images_generate = (\<lambda>request. Inr [Some (pystr ''aGk='')]),
      b64decode = (\<lambda>b64_data. Inr [104, 105]),
      tempdir = pystr ''/tmp'',
      candidates = [pystr ''abc123''],
      create_error = (\<lambda>path. None),
      write_error = (\<lambda>path image_bytes. None)\<rparr>"


definition empty_world :: world where
  "empty_world = \<lparr>files = Map.empty, image_calls = []\<rparr>"


section \<open>Properties of the hashtag extractor\<close>

lemma strip_whitespace_only:
  assumes "\<forall>c\<in>set s. py_isspace c"
  shows "strip s = []"
  using assms by (auto simp: strip_def dest: set_dropWhileD)

lemma find_char_ge: "- 1 \<le> find_char c s"
  by (induction s) (auto simp: Let_def)

lemma find_char_less: "find_char c s < int (length s)"
  by (induction s) (auto simp: Let_def)

lemma find_char_absent: "find_char c s = - 1 \<longleftrightarrow> c \<notin> set s"
proof (induction s)
  case Nil
  show ?case by simp
next
  case (Cons x xs)
  have "- 1 \<le> find_char c xs" by (rule find_char_ge)
  with Cons show ?case by (auto simp: Let_def)
qed

lemma rfind_char_absent: "rfind_char c s = - 1 \<longleftrightarrow> c \<notin> set s"
proof -
  have "find_char c (rev s) < int (length s)"
    using find_char_less [of c "rev s"] by simp
  then have "rfind_char c s = - 1 \<longleftrightarrow> find_char c (rev s) = - 1"
    by (auto simp: rfind_char_def Let_def)
  then show ?thesis
    by (simp add: find_char_absent)
qed

subsection \<open>The examples, evaluated\<close>

lemma sure_strip: "strip sure_text = sure_text"
  by (simp add: sure_text_def pystr_def quoted_def strip_def py_isspace_def)

lemma sure_tokens: "tokens sure_text = None"
  by (simp add: sure_text_def pystr_def quoted_def scan_scalar_def literal_def
      scan_number_def scan_int_def is_digit_def)

lemma sure_loads: "json_loads sure_text = None"
  by (simp add: json_loads_def sure_tokens)

lemma sure_find: "find_char lbrace sure_text = 6"
  by (simp add: sure_text_def pystr_def quoted_def lbrace_def)

lemma sure_rfind: "rfind_char rbrace sure_text = 31"
  by (simp add: sure_text_def pystr_def quoted_def rbrace_def rfind_char_def)

lemma sure_slice: "slice sure_text 6 32 = sure_object"
  by (simp add: sure_text_def sure_object_def pystr_def quoted_def slice_def slice_bound_def)

lemma sure_object_tokens:
  "tokens sure_object =
     Some [TLBrace, TString (pystr ''hashtags''), TColon, TLBracket,
           TString (pystr ''AI''), TComma, TString (pystr ''#SME''), TRBracket, TRBrace]"
  by (simp add: sure_object_def pystr_def quoted_def)

lemma sure_object_loads: "json_loads sure_object = Some sure_payload"
  by (simp add: json_loads_def sure_object_tokens sure_payload_def step_def start_value_def
      close_value_def dict_set_def)

lemma sure_payload_tags: "hashtags_of_payload other sure_payload = Inr (pystr ''#AI #SME'')"
  by (simp add: sure_payload_def hashtags_of_payload_def dict_get_def clean_tag_def py_str_def
      pystr_def strip_def py_isspace_def startswith_hash_def hash_def lstrip_hash_def
      remove_spaces_def space_def)

lemma sure_braces: "lbrace \<in> set sure_text" "rbrace \<in> set sure_text"
  by (simp_all add: sure_text_def pystr_def quoted_def lbrace_def rbrace_def)

lemma hello_loads: "json_loads (pystr ''hello'') = None"
  by (simp add: json_loads_def pystr_def scan_scalar_def literal_def scan_number_def
      scan_int_def is_digit_def)

lemma hello_strip: "strip (pystr '' hello '') = pystr ''hello''"
  by (simp add: pystr_def strip_def py_isspace_def)

lemma hello_find: "find_char lbrace (pystr ''hello'') = - 1"
  by (simp add: pystr_def lbrace_def)

lemma hello_nonempty: "pystr ''hello'' \<noteq> []"
  by (simp add: pystr_def)

subsection \<open>Empty and whitespace-only completion text\<close>

text \<open>
  Claim C6. When every character of the completion text is whitespace (the empty text
  included), \<open>_parse_hashtags\<close> returns the empty string: no tag, no exception, and
  the decoder plays no part, since the result is the same for every decoder.
\<close>

theorem parse_hashtags_whitespace_only:
  assumes "\<forall>c\<in>set raw. py_isspace c"
  shows "parse_hashtags loads other (Some raw) = Inr []"
  using strip_whitespace_only [OF assms] by (simp add: parse_hashtags_def)

theorem parse_hashtags_whitespace_only_witness:
  "list_all py_isspace [32, 9, 10, 32] \<and>
   parse_hashtags json_loads str_unused (Some [32, 9, 10, 32]) = Inr []"
proof -
  have h: "\<forall>c\<in>set [32, 9, 10, 32]. py_isspace c"
    by (simp add: py_isspace_def)
  from parse_hashtags_whitespace_only [OF h] h show ?thesis
    by (simp add: list_all_iff)
qed

subsection \<open>The fallback\<close>

text \<open>
  Claim C3, as stated, fails: what the fallback returns is the trimmed text, not the
  raw text. The text \<open>" hello "\<close> has no brace and does not decode, neither as it is nor
  trimmed, and the result is \<open>"hello"\<close>.
\<close>

theorem parse_hashtags_fallback_not_raw:
  "json_loads (pystr '' hello '') = None \<and>
   json_loads (strip (pystr '' hello '')) = None \<and>
   lbrace \<notin> set (pystr '' hello '') \<and> rbrace \<notin> set (pystr '' hello '') \<and>
   parse_hashtags json_loads str_unused (Some (pystr '' hello '')) = Inr (pystr ''hello'') \<and>
   pystr ''hello'' \<noteq> pystr '' hello ''"
proof -
  have "json_loads (pystr '' hello '') = None"
    by (simp add: json_loads_def pystr_def scan_scalar_def literal_def scan_number_def
        scan_int_def is_digit_def)
  moreover have "lbrace \<notin> set (pystr '' hello '')" "rbrace \<notin> set (pystr '' hello '')"
    by (simp_all add: pystr_def lbrace_def rbrace_def)
  moreover have "parse_hashtags json_loads str_unused (Some (pystr '' hello '')) = Inr (pystr ''hello'')"
    by (simp add: parse_hashtags_def hello_strip hello_loads hello_find hello_nonempty)
  moreover have "pystr ''hello'' \<noteq> pystr '' hello ''"
    by (simp add: pystr_def)
  ultimately show ?thesis
    by (simp add: hello_strip hello_loads)
qed

text \<open>
  Claim C3, amended. When the trimmed text does not decode, and it has no \<open>{\<close>, or no
  \<open>}\<close>, or its last \<open>}\<close> is not after its first \<open>{\<close>, or the text from the first \<open>{\<close>
  to the last \<open>}\<close> does not decode either, then \<open>_parse_hashtags\<close> returns the trimmed
  text.
\<close>

theorem parse_hashtags_fallback_trimmed:
  assumes "loads (strip raw) = None"
    and "lbrace \<notin> set (strip raw) \<or> rbrace \<notin> set (strip raw)
         \<or> rfind_char rbrace (strip raw) \<le> find_char lbrace (strip raw)
         \<or> loads (slice (strip raw) (find_char lbrace (strip raw))
                    (rfind_char rbrace (strip raw) + 1)) = None"
  shows "parse_hashtags loads other (Some raw) = Inr (strip raw)"
  using assms
  by (auto simp: parse_hashtags_def Let_def find_char_absent rfind_char_absent)

theorem parse_hashtags_fallback_trimmed_witness:
  "json_loads (strip (pystr '' hello '')) = None \<and>
   lbrace \<notin> set (strip (pystr '' hello '')) \<and>
   parse_hashtags json_loads str_unused (Some (pystr '' hello '')) = Inr (pystr ''hello'')"
proof -
  have h1: "json_loads (strip (pystr '' hello '')) = None"
    by (simp add: hello_strip hello_loads)
  have h2: "lbrace \<notin> set (strip (pystr '' hello ''))"
    by (simp add: hello_strip) (simp add: pystr_def lbrace_def)
  from h2 have h3: "lbrace \<notin> set (strip (pystr '' hello '')) \<or> rbrace \<notin> set (strip (pystr '' hello ''))
         \<or> rfind_char rbrace (strip (pystr '' hello '')) \<le> find_char lbrace (strip (pystr '' hello ''))
         \<or> json_loads (slice (strip (pystr '' hello '')) (find_char lbrace (strip (pystr '' hello '')))
                    (rfind_char rbrace (strip (pystr '' hello '')) + 1)) = None"
    by blast
  from parse_hashtags_fallback_trimmed [OF h1 h3, of str_unused] h1 h2 show ?thesis
    by (simp add: hello_strip)
qed

text \<open>
  A text without braces can decode all the same: \<open>123\<close> decodes to a number, on which
  \<open>payload.get\<close> raises. The amended claim is about the texts that do not decode.
\<close>

lemma number_loads: "json_loads (pystr ''123'') = Some (PyInt 123)"
  by (simp add: json_loads_def pystr_def scan_scalar_def literal_def scan_number_def Let_def
      scan_int_def scan_frac_def scan_exp_def is_digit_def decimal_def step_def start_value_def)

lemma parse_hashtags_number_raises:
  "parse_hashtags json_loads other (Some (pystr ''123'')) =
     Inl (AttributeError ([39] @ pystr ''int'' @ [39] @ pystr '' object has no attribute '' @
                          [39] @ pystr ''get'' @ [39]))"
proof -
  have "strip (pystr ''123'') = pystr ''123''"
    by (simp add: pystr_def strip_def py_isspace_def)
  moreover have "pystr ''123'' \<noteq> []"
    by (simp add: pystr_def)
  ultimately show ?thesis
    by (simp add: parse_hashtags_def number_loads hashtags_of_payload_def)
qed

subsection \<open>Recovery of an embedded object\<close>

text \<open>
  Claim C7. When the trimmed text does not decode but has a first \<open>{\<close> before a last
  \<open>}\<close>, and the text from the one to the other decodes, \<open>_parse_hashtags\<close> goes on with
  the decoded value as it does after a strict parse. For the text
  \<open>Sure! {"hashtags":["AI","#SME"]} Thanks\<close> the result is \<open>#AI #SME\<close>.
\<close>

theorem parse_hashtags_recovers_embedded_object:
  "(strip raw \<noteq> [] \<and> loads (strip raw) = None \<and>
    lbrace \<in> set (strip raw) \<and> rbrace \<in> set (strip raw) \<and>
    find_char lbrace (strip raw) < rfind_char rbrace (strip raw) \<and>
    loads (slice (strip raw) (find_char lbrace (strip raw))
             (rfind_char rbrace (strip raw) + 1)) = Some payload
    \<longrightarrow> parse_hashtags loads other (Some raw) = hashtags_of_payload other payload) \<and>
   parse_hashtags json_loads other (Some sure_text) = Inr (pystr ''#AI #SME'')"
proof -
  have "parse_hashtags json_loads other (Some sure_text) = Inr (pystr ''#AI #SME'')"
    by (simp add: parse_hashtags_def sure_strip sure_loads sure_find sure_rfind sure_slice
        sure_object_loads sure_payload_tags)
      (simp add: sure_text_def pystr_def quoted_def)
  then show ?thesis
    by (simp add: parse_hashtags_def Let_def find_char_absent rfind_char_absent)
qed

theorem parse_hashtags_recovers_embedded_object_witness:
  "strip sure_text \<noteq> [] \<and> json_loads (strip sure_text) = None \<and>
   lbrace \<in> set (strip sure_text) \<and> rbrace \<in> set (strip sure_text) \<and>
   find_char lbrace (strip sure_text) < rfind_char rbrace (strip sure_text) \<and>
   json_loads (slice (strip sure_text) (find_char lbrace (strip sure_text))
                 (rfind_char rbrace (strip sure_text) + 1)) = Some sure_payload \<and>
   parse_hashtags json_loads str_unused (Some sure_text) = hashtags_of_payload str_unused sure_payload"
proof -
  have h: "strip sure_text \<noteq> [] \<and> json_loads (strip sure_text) = None \<and>
    lbrace \<in> set (strip sure_text) \<and> rbrace \<in> set (strip sure_text) \<and>
    find_char lbrace (strip sure_text) < rfind_char rbrace (strip sure_text) \<and>
    json_loads (slice (strip sure_text) (find_char lbrace (strip sure_text))
                 (rfind_char rbrace (strip sure_text) + 1)) = Some sure_payload"
    by (simp add: sure_strip sure_loads sure_braces sure_find sure_rfind sure_slice
        sure_object_loads)
      (simp add: sure_text_def pystr_def quoted_def)
  from parse_hashtags_recovers_embedded_object
    [of sure_text json_loads sure_payload str_unused] h
  show ?thesis by blast
qed

subsection \<open>The tag loop\<close>

lemma split_at_absent: "c \<notin> set t \<Longrightarrow> split_at c t = [t]"
  by (induction t) auto

lemma split_at_append: "c \<notin> set t \<Longrightarrow> split_at c (t @ c # s) = t # split_at c s"
  by (induction t) auto

lemma space_tokens_join:
  "(\<forall>t\<in>set ts. t \<noteq> [] \<and> space \<notin> set t) \<Longrightarrow> space_tokens (join [space] ts) = ts"
proof (induction "[space]" ts rule: join.induct)
  case 1
  show ?case by (simp add: space_tokens_def)
next
  case (2 x)
  then show ?case by (simp add: space_tokens_def split_at_absent)
next
  case (3 x y ys)
  then have "space_tokens (join [space] (y # ys)) = y # ys" by simp
  moreover from 3 have "space \<notin> set x" "x \<noteq> []" by simp_all
  ultimately show ?case
    by (simp add: space_tokens_def split_at_append)
qed

lemma remove_spaces_hash: "remove_spaces (hash # r) = hash # remove_spaces r"
  by (simp add: remove_spaces_def hash_def space_def)

lemma clean_tag_shape:
  assumes "clean_tag other v = Some t"
  shows "startswith_hash t \<and> space \<notin> set t \<and> t \<noteq> []"
proof -
  define s where "s = strip (py_str other v)"
  define u where "u = (if \<not> startswith_hash s then hash # lstrip_hash s else s)"
  from assms have ne: "s \<noteq> []" and t: "t = remove_spaces u"
    by (auto simp: clean_tag_def Let_def s_def u_def split: if_splits)
  have "\<exists>r. u = hash # r"
  proof (cases "startswith_hash s")
    case True
    then show ?thesis
      by (cases s) (simp_all add: u_def startswith_hash_def)
  next
    case False
    then show ?thesis by (simp add: u_def)
  qed
  then obtain r where "u = hash # r" ..
  with t have "t = hash # remove_spaces r"
    by (simp add: remove_spaces_hash)
  then show ?thesis
    by (auto simp: startswith_hash_def remove_spaces_def hash_def space_def)
qed

lemma clean_tags_shape:
  "t \<in> set (clean_tags other vs) \<Longrightarrow> startswith_hash t \<and> space \<notin> set t \<and> t \<noteq> []"
proof (induction vs)
  case Nil
  then show ?case by simp
next
  case (Cons v vs)
  then show ?case
    by (cases "clean_tag other v") (auto dest: clean_tag_shape)
qed

lemma clean_tag_None: "clean_tag other (PyStr s) = None \<longleftrightarrow> strip s = []"
  by (simp add: clean_tag_def py_str_def Let_def)

lemma length_clean_tags:
  "length (clean_tags other (map PyStr ss)) = length (filter (\<lambda>s. strip s \<noteq> []) ss)"
proof (induction ss)
  case Nil
  show ?case by simp
next
  case (Cons s ss)
  show ?case
  proof (cases "clean_tag other (PyStr s)")
    case None
    then have "strip s = []" using clean_tag_None [of other s] by simp
    with None Cons show ?thesis by simp
  next
    case (Some t)
    then have "strip s \<noteq> []" using clean_tag_None [of other s] by simp
    with Some Cons show ?thesis by simp
  qed
qed

lemma growth_tokens:
  "tokens growth_text =
     Some [TLBrace, TString (pystr ''hashtags''), TColon, TLBracket,
           TString (pystr ''##growth''), TRBracket, TRBrace]"
  by (simp add: growth_text_def pystr_def quoted_def)

lemma growth_loads:
  "json_loads growth_text = Some (PyDict [(pystr ''hashtags'', PyList [PyStr (pystr ''##growth'')])])"
  by (simp add: json_loads_def growth_tokens step_def start_value_def close_value_def dict_set_def)

lemma growth_strip: "strip growth_text = growth_text"
  by (simp add: growth_text_def pystr_def quoted_def strip_def py_isspace_def)

lemma growth_nonempty: "growth_text \<noteq> []"
  by (simp add: growth_text_def pystr_def quoted_def)

lemma growth_clean: "clean_tag other (PyStr (pystr ''##growth'')) = Some (pystr ''##growth'')"
  by (simp add: clean_tag_def py_str_def pystr_def strip_def py_isspace_def startswith_hash_def
      hash_def remove_spaces_def space_def)

lemma gap_tokens:
  "tokens gap_text =
     Some [TLBrace, TString (pystr ''hashtags''), TColon, TLBracket,
           TString [], TComma, TString [97, 9, 98], TRBracket, TRBrace]"
  by (simp add: gap_text_def pystr_def quoted_def simple_escape_def)

lemma gap_loads:
  "json_loads gap_text = Some (PyDict [(pystr ''hashtags'', PyList [PyStr [], PyStr [97, 9, 98]])])"
  by (simp add: json_loads_def gap_tokens step_def start_value_def close_value_def dict_set_def)

lemma gap_strip: "strip gap_text = gap_text"
  by (simp add: gap_text_def pystr_def quoted_def strip_def py_isspace_def)

lemma gap_nonempty: "gap_text \<noteq> []"
  by (simp add: gap_text_def pystr_def quoted_def)

lemma gap_tags:
  "hashtags_of_payload other (PyDict [(pystr ''hashtags'', PyList [PyStr [], PyStr [97, 9, 98]])])
     = Inr [35, 97, 9, 98]"
  by (simp add: hashtags_of_payload_def dict_get_def clean_tag_def py_str_def
      strip_def py_isspace_def startswith_hash_def hash_def lstrip_hash_def
      remove_spaces_def space_def)

text \<open>
  Claim C2. The claim is what the loop is written to do, and the code misses it: the
  call \<open>lstrip('#')\<close> is under \<open>if not tag_text.startswith("#")\<close>, where there is
  nothing to strip, and a tag that starts with \<open>#\<close> is left as it is. The entry
  \<open>"##growth"\<close> stays \<open>"##growth"\<close>, also from the completion text
  \<open>{"hashtags":["##growth"]}\<close>.
\<close>

theorem clean_tag_keeps_double_hash:
  "clean_tag other (PyStr (pystr ''##growth'')) = Some (pystr ''##growth'') \<and>
   parse_hashtags json_loads other (Some growth_text) = Inr (pystr ''##growth'')"
  by (simp add: growth_clean parse_hashtags_def growth_strip growth_nonempty growth_loads
      hashtags_of_payload_def dict_get_def)

text \<open>
  Claim C4, as stated, fails. The completion text \<open>{"hashtags":["","a?b"]}\<close>, with \<open>?\<close>
  the JSON escape of a tab, has a tag list of two strings; the result has one token, and
  the token holds a tab.
\<close>

theorem parse_hashtags_tokens_not_min:
  "json_loads gap_text = Some (PyDict [(pystr ''hashtags'', PyList [PyStr [], PyStr [97, 9, 98]])]) \<and>
   parse_hashtags json_loads str_unused (Some gap_text) = Inr [35, 97, 9, 98] \<and>
   space_tokens [35, 97, 9, 98] = [[35, 97, 9, 98]] \<and>
   length (space_tokens [35, 97, 9, 98]) \<noteq> min 2 10 \<and>
   py_isspace 9"
  by (simp add: gap_loads parse_hashtags_def gap_strip gap_nonempty gap_tags
      space_tokens_def space_def py_isspace_def)

text \<open>
  Claim C4, amended. For a completion text that decodes to an object whose \<open>hashtags\<close>
  entry is a list of N strings, of which K are not empty after trimming, the result is
  \<open>min(K, 10)\<close> tokens joined by single spaces, which is at most \<open>min(N, 10)\<close>; each
  token starts with \<open>#\<close> and contains no space character, so that the result splits at
  its spaces into these tokens again.
\<close>

theorem parse_hashtags_token_count:
  assumes "strip raw \<noteq> []"
    and "loads (strip raw) = Some (PyDict d)"
    and "dict_get d (pystr ''hashtags'') = Some (PyList (map PyStr ss))"
  shows "let toks = take 10 (clean_tags other (map PyStr ss)) in
           parse_hashtags loads other (Some raw) = Inr (join [space] toks) \<and>
           space_tokens (join [space] toks) = toks \<and>
           length toks = min (length (filter (\<lambda>s. strip s \<noteq> []) ss)) 10 \<and>
           length toks \<le> min (length ss) 10 \<and>
           (\<forall>t\<in>set toks. startswith_hash t \<and> space \<notin> set t)"
proof -
  define toks where "toks = take 10 (clean_tags other (map PyStr ss))"
  have shape: "startswith_hash t \<and> space \<notin> set t \<and> t \<noteq> []" if "t \<in> set toks" for t
  proof -
    from that have "t \<in> set (clean_tags other (map PyStr ss))"
      unfolding toks_def by (rule in_set_takeD)
    then show ?thesis by (rule clean_tags_shape)
  qed
  have r1: "parse_hashtags loads other (Some raw) = Inr (join [space] toks)"
    using assms by (simp add: parse_hashtags_def hashtags_of_payload_def toks_def)
  have r2: "space_tokens (join [space] toks) = toks"
    by (rule space_tokens_join) (simp add: shape)
  have r3: "length toks = min (length (filter (\<lambda>s. strip s \<noteq> []) ss)) 10"
    by (simp add: toks_def length_clean_tags)
  have "length (filter (\<lambda>s. strip s \<noteq> []) ss) \<le> length ss"
    by (rule length_filter_le)
  then have r4: "length toks \<le> min (length ss) 10"
    unfolding r3 by (simp add: min_le_iff_disj)
  have r5: "\<forall>t\<in>set toks. startswith_hash t \<and> space \<notin> set t"
    by (simp add: shape)
  show ?thesis
    unfolding Let_def toks_def [symmetric] by (intro conjI r1 r2 r3 r4 r5)
qed

theorem parse_hashtags_token_count_witness:
  "strip sure_object \<noteq> [] \<and>
   json_loads (strip sure_object) = Some sure_payload \<and>
   parse_hashtags json_loads str_unused (Some sure_object) = Inr (pystr ''#AI #SME'') \<and>
   space_tokens (pystr ''#AI #SME'') = [pystr ''#AI'', pystr ''#SME'']"
proof -
  have strip: "strip sure_object = sure_object"
    by (simp add: sure_object_def pystr_def quoted_def strip_def py_isspace_def)
  have h1: "strip sure_object \<noteq> []"
    unfolding strip by (simp add: sure_object_def pystr_def quoted_def)
  have h2: "json_loads (strip sure_object) = Some (PyDict [(pystr ''hashtags'', PyList (map PyStr [pystr ''AI'', pystr ''#SME'']))])"
    unfolding strip by (simp add: sure_object_loads sure_payload_def)
  have h3: "dict_get [(pystr ''hashtags'', PyList (map PyStr [pystr ''AI'', pystr ''#SME'']))] (pystr ''hashtags'')
      = Some (PyList (map PyStr [pystr ''AI'', pystr ''#SME'']))"
    by (simp add: dict_get_def)
  have toks: "take 10 (clean_tags str_unused (map PyStr [pystr ''AI'', pystr ''#SME''])) = [pystr ''#AI'', pystr ''#SME'']"
    by (simp add: clean_tag_def py_str_def pystr_def strip_def py_isspace_def startswith_hash_def
        hash_def lstrip_hash_def remove_spaces_def space_def)
  have j: "join [space] [pystr ''#AI'', pystr ''#SME''] = pystr ''#AI #SME''"
    by (simp add: pystr_def space_def)
  from parse_hashtags_token_count [where raw = sure_object and loads = json_loads and other = str_unused
      and ss = "[pystr ''AI'', pystr ''#SME'']", OF h1 h2 h3] h1 h2 show ?thesis
    unfolding Let_def toks j by (simp add: sure_payload_def)
qed

text \<open>
  Claim C9. On a tag that is already normalized (not empty, trimmed, one leading \<open>#\<close>,
  no whitespace) the loop body appends the tag unchanged.
\<close>

theorem clean_tag_normalized_unchanged:
  assumes "normalized_tag t"
  shows "clean_tag other (PyStr t) = Some t"
proof -
  from assms have "strip t = t" "t \<noteq> []" "startswith_hash t"
    by (simp_all add: normalized_tag_def)
  moreover have "py_isspace space"
    by (simp add: py_isspace_def space_def)
  with assms have "\<forall>c\<in>set t. c \<noteq> space"
    by (auto simp: normalized_tag_def list_all_iff)
  then have "remove_spaces t = t"
    by (simp add: remove_spaces_def)
  ultimately show ?thesis
    by (simp add: clean_tag_def py_str_def)
qed

theorem clean_tag_normalized_unchanged_witness:
  "normalized_tag (pystr ''#growth'') \<and>
   clean_tag str_unused (PyStr (pystr ''#growth'')) = Some (pystr ''#growth'')"
proof -
  have h: "normalized_tag (pystr ''#growth'')"
    by (simp add: normalized_tag_def pystr_def strip_def py_isspace_def startswith_hash_def hash_def)
  from clean_tag_normalized_unchanged [OF h] h show ?thesis by simp
qed

section \<open>Properties of the generators\<close>

subsection \<open>The hashtag generator without content\<close>

text \<open>
  Claim C10. When the completion client returns a result whose \<open>content\<close> key is absent
  or holds \<open>None\<close>, \<open>generate_hashtags\<close> returns: the hashtags are the empty string, and
  the metadata has the \<open>llm\<close> entry with its six keys, each with the value of the result,
  or with the default of the \<open>get\<close> call where the result has no such key.
\<close>

theorem generate_hashtags_without_content:
  assumes "generate_completion (hashtag_messages post topic business_objective) config = Inr r"
    and "lr_content r = None \<or> lr_content r = Some None"
  shows "generate_hashtags generate_completion loads other post topic business_objective config =
           Inr ([], [(pystr ''llm'',
                      PyDict
                        [(pystr ''model'', get_default (lr_model r) PyNone),
                         (pystr ''attempts'', get_default (lr_attempts r) PyNone),
                         (pystr ''usage'', get_default (lr_usage r) (PyDict [])),
                         (pystr ''length'', get_default (lr_length r) (PyDict [])),
                         (pystr ''estimated_cost_usd'',
                          get_default (lr_estimated_cost_usd r) (PyFloat (pystr ''0.0''))),
                         (pystr ''error'', get_default (lr_error r) PyNone)])])"
proof -
  have "parse_hashtags loads other (get_default (lr_content r) (Some [])) = Inr []"
    using assms(2) by (auto simp: get_default_def parse_hashtags_def strip_def)
  with assms(1) show ?thesis
    by (simp add: generate_hashtags_def llm_metadata_def)
qed

theorem generate_hashtags_without_content_witness:
  "sample_completion (hashtag_messages [] [] []) key_config = Inr sample_result \<and>
   lr_content sample_result = Some None \<and>
   generate_hashtags sample_completion json_loads str_unused [] [] [] key_config =
     Inr ([], [(pystr ''llm'',
                PyDict
                  [(pystr ''model'', PyStr (pystr ''gpt-4o-mini'')),
                   (pystr ''attempts'', PyInt 1),
                   (pystr ''usage'', PyDict []),
                   (pystr ''length'', PyDict []),
                   (pystr ''estimated_cost_usd'', PyFloat (pystr ''0.0'')),
                   (pystr ''error'', PyStr (pystr ''empty completion''))])])"
proof -
  have h1: "sample_completion (hashtag_messages [] [] []) key_config = Inr sample_result"
    by (simp add: sample_completion_def)
  have h2: "lr_content sample_result = None \<or> lr_content sample_result = Some None"
    by (simp add: sample_result_def)
  from generate_hashtags_without_content [where generate_completion = sample_completion and r = sample_result
      and loads = json_loads and other = str_unused, OF h1 h2] h1 show ?thesis
    by (simp add: sample_result_def get_default_def)
qed

subsection \<open>The image generator: credential, success, failures\<close>

text \<open>
  Claim C5. With no key in the configuration and none in the environment (absent, or the
  empty string), \<open>generate_post_image\<close> returns \<open>None\<close> and the error
  \<open>OPENAI_API_KEY not set\<close>, which is not empty, and leaves the world as it was: no
  request has been sent to the image service and no file has been written.
\<close>

theorem generate_post_image_no_credential:
  assumes "cfg_api_key config = None \<or> cfg_api_key config = Some []"
    and "getenv env = None \<or> getenv env = Some []"
  shows "generate_post_image env post topic config w =
           (Inr (None, [(pystr ''error'', PyStr (pystr ''OPENAI_API_KEY not set''))]), w) \<and>
         pystr ''OPENAI_API_KEY not set'' \<noteq> []"
  using assms by (auto simp: generate_post_image_def pystr_def)

theorem generate_post_image_no_credential_witness:
  "cfg_api_key no_key_config = None \<and> getenv sample_env = None \<and>
   generate_post_image sample_env [] [] no_key_config empty_world =
     (Inr (None, [(pystr ''error'', PyStr (pystr ''OPENAI_API_KEY not set''))]), empty_world)"
proof -
  have h1: "cfg_api_key no_key_config = None \<or> cfg_api_key no_key_config = Some []"
    by (simp add: no_key_config_def)
  have h2: "getenv sample_env = None \<or> getenv sample_env = Some []"
    by (simp add: sample_env_def)
  from generate_post_image_no_credential [OF h1 h2, of "[]" "[]" empty_world] show ?thesis
    by (simp add: no_key_config_def sample_env_def)
qed

lemma mkstemp_fresh:
  "mkstemp fs dir names = Inr p \<Longrightarrow> fs p = None \<and> (\<exists>name\<in>set names. p = temp_path dir name)"
  by (induction names) (auto split: if_splits)

lemma write_temp_file_success:
  assumes "write_temp_file env image_bytes w = (Inr p, w')"
  shows "files w p = None" "\<exists>name\<in>set (candidates env). p = temp_path (tempdir env) name"
    "w' = w\<lparr>files := (files w)(p \<mapsto> image_bytes)\<rparr>"
proof -
  from assms obtain q where q: "mkstemp (files w) (tempdir env) (candidates env) = Inr q"
    by (auto simp: write_temp_file_def split: sum.splits)
  with assms have "q = p" and w': "w' = w\<lparr>files := (files w)(p \<mapsto> image_bytes)\<rparr>"
    by (auto simp: write_temp_file_def split: option.splits)
  with q mkstemp_fresh [of "files w" "tempdir env" "candidates env" p]
  show "files w p = None" "\<exists>name\<in>set (candidates env). p = temp_path (tempdir env) name"
    by simp_all
  show "w' = w\<lparr>files := (files w)(p \<mapsto> image_bytes)\<rparr>" by (rule w')
qed

lemma image_attempt_success:
  assumes "image_attempt env image_model image_size prompt w = (Inr (Some p, meta), w')"
  shows "\<exists>b rest image_bytes.
           images_generate env \<lparr>req_model = image_model, req_prompt = prompt, req_size = image_size\<rparr>
             = Inr (Some b # rest) \<and> b \<noteq> [] \<and>
           b64decode env b = Inr image_bytes \<and>
           write_temp_file env image_bytes
             (w\<lparr>image_calls := image_calls w @
                  [\<lparr>req_model = image_model, req_prompt = prompt, req_size = image_size\<rparr>]\<rparr>)
             = (Inr p, w') \<and>
           meta = [(pystr ''model'', image_model), (pystr ''size'', image_size),
                   (pystr ''path'', PyStr p)]"
  using assms unfolding image_attempt_def Let_def
  by (simp split: sum.splits list.splits option.splits if_splits prod.splits)


lemma generate_post_image_attempt:
  assumes "generate_post_image env post topic config w = (Inr (Some p, meta), w')"
  shows "image_attempt env (get_default (cfg_image_model config) (PyStr (pystr ''gpt-image-1'')))
           (get_default (cfg_image_size config) (PyStr (pystr ''1024x1024'')))
           (image_prompt topic post) w = (Inr (Some p, meta), w')"
  using assms unfolding generate_post_image_def Let_def
  by (simp split: option.splits if_splits sum.splits prod.splits)

text \<open>
  Claim C8. When \<open>generate_post_image\<close> returns a path, no file had this path before the
  call; the path is the directory for temporary files, \<open>/\<close>, \<open>pbcg_\<close>, one of the drawn
  names and \<open>.png\<close>; the service answered the request with a first item whose payload
  decodes to the bytes that the file holds after the call; every other file is as it
  was, and none is deleted; and the \<open>path\<close> entry of the metadata is the returned path.
\<close>

theorem generate_post_image_success_file:
  assumes "generate_post_image env post topic config w = (Inr (Some path, meta), w')"
  shows "files w path = None \<and>
         (\<exists>name\<in>set (candidates env). path = temp_path (tempdir env) name) \<and>
         (\<exists>b rest image_bytes.
            images_generate env
              \<lparr>req_model = get_default (cfg_image_model config) (PyStr (pystr ''gpt-image-1'')),
               req_prompt = image_prompt topic post,
               req_size = get_default (cfg_image_size config) (PyStr (pystr ''1024x1024''))\<rparr>
              = Inr (Some b # rest) \<and>
            b64decode env b = Inr image_bytes \<and>
            files w' path = Some image_bytes) \<and>
         (\<forall>p. p \<noteq> path \<longrightarrow> files w' p = files w p) \<and>
         dict_get meta (pystr ''path'') = Some (PyStr path)"
proof -
  define image_model where
    "image_model = get_default (cfg_image_model config) (PyStr (pystr ''gpt-image-1''))"
  define image_size where
    "image_size = get_default (cfg_image_size config) (PyStr (pystr ''1024x1024''))"
  define request where
    "request = \<lparr>req_model = image_model, req_prompt = image_prompt topic post,
                 req_size = image_size\<rparr>"
  define w1 where "w1 = w\<lparr>image_calls := image_calls w @ [request]\<rparr>"
  from generate_post_image_attempt [OF assms]
  have "image_attempt env image_model image_size (image_prompt topic post) w
          = (Inr (Some path, meta), w')"
    by (simp add: image_model_def image_size_def)
  from image_attempt_success [OF this]
  obtain b rest image_bytes where
    gen: "images_generate env request = Inr (Some b # rest)" and
    dec: "b64decode env b = Inr image_bytes" and
    wr: "write_temp_file env image_bytes w1 = (Inr path, w')" and
    meta: "meta = [(pystr ''model'', image_model), (pystr ''size'', image_size),
                   (pystr ''path'', PyStr path)]"
    unfolding request_def w1_def by blast
  from write_temp_file_success [OF wr]
  have fresh: "files w1 path = None"
    and name: "\<exists>name\<in>set (candidates env). path = temp_path (tempdir env) name"
    and w': "w' = w1\<lparr>files := (files w1)(path \<mapsto> image_bytes)\<rparr>"
    by simp_all
  have files1: "files w1 = files w"
    by (simp add: w1_def)
  have "files w path = None"
    using fresh files1 by simp
  moreover have "files w' path = Some image_bytes"
    by (simp add: w')
  moreover have "\<forall>p. p \<noteq> path \<longrightarrow> files w' p = files w p"
    by (simp add: w' files1)
  moreover have "dict_get meta (pystr ''path'') = Some (PyStr path)"
    by (simp add: meta dict_get_def pystr_def)
  ultimately show ?thesis
    using name gen dec unfolding request_def image_model_def image_size_def by blast
qed

lemma sample_success:
  "generate_post_image sample_env [] [] key_config empty_world =
     (Inr (Some (pystr ''/tmp/pbcg_abc123.png''),
           [(pystr ''model'', PyStr (pystr ''gpt-image-1'')),
            (pystr ''size'', PyStr (pystr ''1024x1024'')),
            (pystr ''path'', PyStr (pystr ''/tmp/pbcg_abc123.png''))]),
      \<lparr>files = [pystr ''/tmp/pbcg_abc123.png'' \<mapsto> [104, 105]],
       image_calls = [\<lparr>req_model = PyStr (pystr ''gpt-image-1''), req_prompt = image_prompt [] [],
                       req_size = PyStr (pystr ''1024x1024'')\<rparr>]\<rparr>)"
proof -
  have path: "temp_path (pystr ''/tmp'') (pystr ''abc123'') = pystr ''/tmp/pbcg_abc123.png''"
    by (simp add: temp_path_def pystr_def)
  have "write_temp_file sample_env [104, 105] \<lparr>files = Map.empty, image_calls = calls\<rparr> =
          (Inr (pystr ''/tmp/pbcg_abc123.png''),
           \<lparr>files = [pystr ''/tmp/pbcg_abc123.png'' \<mapsto> [104, 105]], image_calls = calls\<rparr>)"
    for calls
    by (simp add: write_temp_file_def sample_env_def path)
  then have "image_attempt sample_env image_model image_size prompt empty_world =
          (Inr (Some (pystr ''/tmp/pbcg_abc123.png''),
                [(pystr ''model'', image_model), (pystr ''size'', image_size),
                 (pystr ''path'', PyStr (pystr ''/tmp/pbcg_abc123.png''))]),
           \<lparr>files = [pystr ''/tmp/pbcg_abc123.png'' \<mapsto> [104, 105]],
            image_calls = [\<lparr>req_model = image_model, req_prompt = prompt,
                            req_size = image_size\<rparr>]\<rparr>)"
    for image_model image_size prompt
    by (simp add: image_attempt_def Let_def empty_world_def)
      (simp add: sample_env_def pystr_def)
  then show ?thesis
    by (simp add: generate_post_image_def Let_def key_config_def get_default_def py_float_def)
      (simp add: sample_env_def pystr_def)
qed

theorem generate_post_image_success_file_witness:
  "generate_post_image sample_env [] [] key_config empty_world =
     (Inr (Some (pystr ''/tmp/pbcg_abc123.png''),
           [(pystr ''model'', PyStr (pystr ''gpt-image-1'')),
            (pystr ''size'', PyStr (pystr ''1024x1024'')),
            (pystr ''path'', PyStr (pystr ''/tmp/pbcg_abc123.png''))]),
      \<lparr>files = [pystr ''/tmp/pbcg_abc123.png'' \<mapsto> [104, 105]],
       image_calls = [\<lparr>req_model = PyStr (pystr ''gpt-image-1''), req_prompt = image_prompt [] [],
                       req_size = PyStr (pystr ''1024x1024'')\<rparr>]\<rparr>) \<and>
   files empty_world (pystr ''/tmp/pbcg_abc123.png'') = None \<and>
   dict_get [(pystr ''model'', PyStr (pystr ''gpt-image-1'')),
            (pystr ''size'', PyStr (pystr ''1024x1024'')),
            (pystr ''path'', PyStr (pystr ''/tmp/pbcg_abc123.png''))] (pystr ''path'')
     = Some (PyStr (pystr ''/tmp/pbcg_abc123.png''))"
  using generate_post_image_success_file [OF sample_success] sample_success by simp







end
